theory Spec2Isabelle
  imports Complex_Main
begin

section \<open>Virtual try-on client: the prediction lifecycle of \<open>App.tsx\<close>\<close>

text \<open>
  The repository holds three near-duplicate revisions of the same React component:
  \<^item> the \<^emph>\<open>url\<close> variant: \<open>src/src/App.tsx\<close>, lines 1 to 259 (model photo by URL or file,
    no notification banner);
  \<^item> the \<^emph>\<open>modal\<close> variant: \<open>src/src/App.tsx\<close>, lines 260 to 750 (camera in a modal component,
    notification banner);
  \<^item> the \<^emph>\<open>inline\<close> variant: \<open>src/unnamed/part_000\<close> (camera captured inside a handler,
    notification banner).
  Each handler of the source is embedded once per variant, with the variant as a suffix of its
  name. A handler is a function from the component state and the outcome of the one network
  call it awaits to the new state and the list of requests it issued.
\<close>

subsection \<open>JavaScript values\<close>

text \<open>
  The values a parsed JSON body and the state cells filled from it can hold at run time.
  \<open>JUndefined\<close> is the value of an absent property. An object is the association list of its
  own properties (keys distinct, as \<open>JSON.parse\<close> leaves them). The code inspects numbers only
  for being zero.
\<close>

datatype jsval =
    JUndefined
  | JNull
  | JBool bool
  | JNum rat
  | JStr string
  | JArr "jsval list"
  | JObj "(string \<times> jsval) list"

text \<open>JavaScript's \<open>ToBoolean\<close>: what \<open>if (v)\<close>, \<open>!v\<close> and \<open>v || w\<close> test.\<close>

fun truthy :: "jsval \<Rightarrow> bool" where
  "truthy JUndefined = False"
| "truthy JNull = False"
| "truthy (JBool b) = b"
| "truthy (JNum n) = (n \<noteq> 0)"
| "truthy (JStr s) = (s \<noteq> [])"
| "truthy (JArr xs) = True"
| "truthy (JObj kvs) = True"

text \<open>
  Property access \<open>v.k\<close> for the keys the code reads (\<open>error\<close>, \<open>status\<close>, \<open>id\<close>, \<open>output\<close>, none
  of them a built-in property of strings, numbers, booleans or arrays): \<open>None\<close> is the
  \<open>TypeError\<close> of reading a property of \<open>null\<close> or \<open>undefined\<close>.
\<close>

fun getProp :: "jsval \<Rightarrow> string \<Rightarrow> jsval option" where
  "getProp JUndefined k = None"
| "getProp JNull k = None"
| "getProp (JObj kvs) k = Some (case map_of kvs k of None \<Rightarrow> JUndefined | Some v \<Rightarrow> v)"
| "getProp v k = Some JUndefined"

text \<open>Optional chaining \<open>v?.k\<close>.\<close>

definition optProp :: "jsval \<Rightarrow> string \<Rightarrow> jsval" where
  "optProp v k = (case getProp v k of None \<Rightarrow> JUndefined | Some w \<Rightarrow> w)"

text \<open>\<open>Array.isArray(v)\<close>, \<open>typeof v === 'object'\<close>, and \<open>v.length\<close> of an array.\<close>

fun isArray :: "jsval \<Rightarrow> bool" where
  "isArray (JArr xs) = True"
| "isArray v = False"

fun typeof_object :: "jsval \<Rightarrow> bool" where
  "typeof_object JNull = True"
| "typeof_object (JArr xs) = True"
| "typeof_object (JObj kvs) = True"
| "typeof_object v = False"

fun array_length :: "jsval \<Rightarrow> nat" where
  "array_length (JArr xs) = length xs"
| "array_length v = 0"

text \<open>
  \<open>v[0]\<close> on a truthy value: the first element of an array (\<open>undefined\<close> when it is empty),
  the first character of a string, the property \<open>"0"\<close> of an object, \<open>undefined\<close> otherwise.
\<close>

fun index0 :: "jsval \<Rightarrow> jsval" where
  "index0 (JArr []) = JUndefined"
| "index0 (JArr (x # xs)) = x"
| "index0 (JStr []) = JUndefined"
| "index0 (JStr (c # cs)) = JStr [c]"
| "index0 (JObj kvs) = (case map_of kvs ''0'' of None \<Rightarrow> JUndefined | Some v \<Rightarrow> v)"
| "index0 v = JUndefined"

subsection \<open>Error messages\<close>

text \<open>
  The text of a thrown \<open>Error\<close>, kept as the expression that builds it:
  \<^item> \<open>Text s\<close>: the string \<open>s\<close> itself (a literal of the source, a string of the response, or
    the message of an exception raised by \<open>fetch\<close> or \<open>response.json()\<close>);
  \<^item> \<open>Coerced v\<close>: \<open>String(v)\<close> of a value that is not a string;
  \<^item> \<open>Stringified v\<close>: \<open>JSON.stringify(v)\<close>;
  \<^item> \<open>ApiError m\<close>: the template \<open>`API Error: ${...}`\<close>;
  \<^item> \<open>HttpFailure p n t\<close>: the template \<open>`<p>${response.status}: ${response.statusText}`\<close>;
  \<^item> \<open>NullDeref\<close>: the message of the \<open>TypeError\<close> of reading a property of \<open>null\<close>.
\<close>

datatype message =
    Text string
  | Coerced jsval
  | Stringified jsval
  | ApiError message
  | HttpFailure string nat string
  | NullDeref

text \<open>The message of \<open>new Error(v)\<close>, and of \<open>`${v}`\<close>.\<close>

fun error_message :: "jsval \<Rightarrow> message" where
  "error_message (JStr s) = Text s"
| "error_message v = Coerced v"

subsection \<open>The network\<close>

datatype parsed = Unparseable string | Parsed jsval

record response =
  status :: nat
  statusText :: string
  body :: parsed

text \<open>\<open>response.ok\<close> of the Fetch API: the status is in the range 200 to 299.\<close>

definition ok :: "response \<Rightarrow> bool" where
  "ok r = (200 \<le> status r \<and> status r \<le> 299)"

text \<open>What \<open>await fetch(...)\<close> gives: a rejection with its message, or a response.\<close>

datatype fetch_outcome = Rejected string | Resolved response

text \<open>
  The requests the component issues: \<open>POST /run\<close> with \<open>model_image\<close>, \<open>garment_image\<close> and
  the category, and \<open>GET /status/${predictionId}\<close>.
\<close>

datatype request = RunRequest string string string | StatusRequest jsval

subsection \<open>Component state\<close>

datatype severity = Error | Warning | Info

record ErrorState =
  message :: message
  type :: severity

text \<open>
  The \<open>useState\<close> cells of \<open>App\<close>. The cells filled from a response hold whatever value the
  response had. \<open>clock\<close> is the time in milliseconds and \<open>timeouts\<close> the deadlines of the pending
  \<open>setTimeout(() => setError(null), 5000)\<close> callbacks. \<open>modelUrl\<close> exists in the url variant
  only, \<open>error\<close> and \<open>timeouts\<close> in the other two.
\<close>

record app =
  modelUrl :: string
  isLoading :: bool
  modelPreview :: "string option"
  generatedResult :: jsval
  predictionId :: jsval
  predictionStatus :: jsval
  garmentUrl :: string
  error :: "ErrorState option"
  clock :: nat
  timeouts :: "nat list"

text \<open>
  The state once the component is mounted: every cell at its initial value, and \<open>garmentUrl\<close>
  as the mount effect took it from \<open>?garment_image=\<close> (empty when the parameter is absent or
  not a URL).
\<close>

definition init :: "string \<Rightarrow> app" where
  "init garment =
     \<lparr>modelUrl = [], isLoading = False, modelPreview = None, generatedResult = JNull,
      predictionId = JNull, predictionStatus = JNull, garmentUrl = garment, error = None,
      clock = 0, timeouts = []\<rparr>"

text \<open>\<open>!modelPreview\<close> on a \<open>string | null\<close>.\<close>

fun falsy_string :: "string option \<Rightarrow> bool" where
  "falsy_string None = True"
| "falsy_string (Some s) = (s = [])"

text \<open>
  The polling effect: an interval timer calling \<open>checkPredictionStatus\<close> every 5000 ms is live
  exactly while its condition holds; React clears it whenever one of the cells it depends on
  changes and sets a new one only under the same condition.
\<close>

definition pollingActive :: "app \<Rightarrow> bool" where
  "pollingActive s =
     (truthy (predictionId s) \<and> predictionStatus s \<noteq> JStr ''completed''
        \<and> predictionStatus s \<noteq> JStr ''failed'')"

subsection \<open>Notifications\<close>

definition showError :: "message \<Rightarrow> severity \<Rightarrow> app \<Rightarrow> app" where
  "showError m t s =
     s\<lparr>error := Some \<lparr>message = m, type = t\<rparr>, timeouts := timeouts s @ [clock s + 5000]\<rparr>"

text \<open>
  \<open>d\<close> milliseconds pass with no other event: every pending callback whose deadline is reached
  runs \<open>setError(null)\<close> and is gone.
\<close>

definition advance :: "nat \<Rightarrow> app \<Rightarrow> app" where
  "advance d s =
     (let now = clock s + d in
      s\<lparr>clock := now,
        error := (if filter (\<lambda>t. t \<le> now) (timeouts s) = [] then error s else None),
        timeouts := filter (\<lambda>t. now < t) (timeouts s)\<rparr>)"

subsection \<open>checkPredictionStatus\<close>

text \<open>
  The body of the \<open>try\<close> block returns the state as the setters called so far leave it, and
  the message of the error thrown, if one was.
\<close>

definition statusTry_modal :: "app \<Rightarrow> fetch_outcome \<Rightarrow> app \<times> message option" where
  "statusTry_modal s r =
     (case r of
        Rejected m \<Rightarrow> (s, Some (Text m))
      | Resolved resp \<Rightarrow>
         (case body resp of
            Unparseable m \<Rightarrow> (s, Some (Text m))
          | Parsed data \<Rightarrow>
             if \<not> ok resp then
               (s, Some (if truthy (optProp data ''error'')
                         then error_message (optProp data ''error'')
                         else HttpFailure ''Status check failed with status ''
                                (status resp) (statusText resp)))
             else
               (case getProp data ''error'' of
                  None \<Rightarrow> (s, Some NullDeref)
                | Some e \<Rightarrow>
                   if truthy e then
                     (s, Some (if typeof_object e then Stringified e else error_message e))
                   else if \<not> truthy (optProp data ''status'') then
                     (s, Some (Text ''Invalid response: missing status''))
                   else
                     (let s1 = s\<lparr>predictionStatus := optProp data ''status''\<rparr>;
                          out = optProp data ''output''
                      in if optProp data ''status'' = JStr ''completed'' then
                           (if \<not> truthy out \<or> \<not> isArray out \<or> array_length out = 0 then
                              (s1, Some (Text ''Invalid response: missing or empty output array''))
                            else
                              (s1\<lparr>generatedResult := index0 out, isLoading := False,
                                  predictionId := JNull, error := None\<rparr>, None))
                         else if optProp data ''status'' = JStr ''failed'' then
                           (s1, Some (if truthy e then error_message e
                                      else Text ''Prediction failed without specific error message''))
                         else (s1, None)))))"

definition checkPredictionStatus_modal :: "app \<Rightarrow> fetch_outcome \<Rightarrow> app \<times> request list" where
  "checkPredictionStatus_modal s r =
     (if \<not> truthy (predictionId s) then (s, [])
      else
        (case statusTry_modal s r of
           (s1, None) \<Rightarrow> (s1, [StatusRequest (predictionId s)])
         | (s1, Some m) \<Rightarrow>
             ((showError m Error s1)\<lparr>isLoading := False, predictionId := JNull\<rparr>,
              [StatusRequest (predictionId s)])))"

text \<open>
  The inline variant tests \<open>response.ok\<close> before it parses the body, and parses the body of a
  failed response with \<open>.catch(() => null)\<close>.
\<close>

definition statusTry_inline :: "app \<Rightarrow> fetch_outcome \<Rightarrow> app \<times> message option" where
  "statusTry_inline s r =
     (case r of
        Rejected m \<Rightarrow> (s, Some (Text m))
      | Resolved resp \<Rightarrow>
         if \<not> ok resp then
           (let errorData = (case body resp of Unparseable m \<Rightarrow> JNull | Parsed d \<Rightarrow> d)
            in (s, Some (if truthy (optProp errorData ''error'')
                         then error_message (optProp errorData ''error'')
                         else HttpFailure ''Status check failed with status ''
                                (status resp) (statusText resp))))
         else
           (case body resp of
              Unparseable m \<Rightarrow> (s, Some (Text m))
            | Parsed data \<Rightarrow>
               (case getProp data ''error'' of
                  None \<Rightarrow> (s, Some NullDeref)
                | Some e \<Rightarrow>
                   if truthy e then (s, Some (ApiError (error_message e)))
                   else if \<not> truthy (optProp data ''status'') then
                     (s, Some (Text ''Invalid response: missing status''))
                   else
                     (let s1 = s\<lparr>predictionStatus := optProp data ''status''\<rparr>;
                          out = optProp data ''output''
                      in if optProp data ''status'' = JStr ''completed'' then
                           (if \<not> truthy out \<or> \<not> isArray out \<or> array_length out = 0 then
                              (s1, Some (Text ''Invalid response: missing or empty output array''))
                            else
                              (s1\<lparr>generatedResult := index0 out, isLoading := False,
                                  predictionId := JNull, error := None\<rparr>, None))
                         else if optProp data ''status'' = JStr ''failed'' then
                           (s1, Some (if truthy e then error_message e
                                      else Text ''Prediction failed without specific error message''))
                         else (s1, None)))))"

definition checkPredictionStatus_inline :: "app \<Rightarrow> fetch_outcome \<Rightarrow> app \<times> request list" where
  "checkPredictionStatus_inline s r =
     (if \<not> truthy (predictionId s) then (s, [])
      else
        (case statusTry_inline s r of
           (s1, None) \<Rightarrow> (s1, [StatusRequest (predictionId s)])
         | (s1, Some m) \<Rightarrow>
             ((showError m Error s1)\<lparr>isLoading := False, predictionId := JNull\<rparr>,
              [StatusRequest (predictionId s)])))"

text \<open>
  The url variant: the \<open>catch\<close> block only logs, so an exception leaves the state as the
  setters called before it left it.
\<close>

definition checkPredictionStatus_url :: "app \<Rightarrow> fetch_outcome \<Rightarrow> app \<times> request list" where
  "checkPredictionStatus_url s r =
     (if \<not> truthy (predictionId s) then (s, [])
      else
        ((case r of
           Rejected m \<Rightarrow> s
         | Resolved resp \<Rightarrow>
            (case body resp of
               Unparseable m \<Rightarrow> s
             | Parsed data \<Rightarrow>
                (case getProp data ''status'' of
                   None \<Rightarrow> s
                 | Some st \<Rightarrow>
                    (let s1 = s\<lparr>predictionStatus := st\<rparr>
                     in if st = JStr ''completed'' \<and> truthy (optProp data ''output'') then
                          s1\<lparr>generatedResult := index0 (optProp data ''output''),
                             isLoading := False, predictionId := JNull\<rparr>
                        else if st = JStr ''failed'' then
                          s1\<lparr>isLoading := False, predictionId := JNull\<rparr>
                        else s1)))),
         [StatusRequest (predictionId s)]))"

subsection \<open>startPrediction\<close>

text \<open>
  The \<open>try\<close> block of the submission after the request: the message of the error thrown
  (\<open>Inl\<close>), or the job id it stores (\<open>Inr\<close>).
\<close>

definition submitTry_modal :: "fetch_outcome \<Rightarrow> message + jsval" where
  "submitTry_modal r =
     (case r of
        Rejected m \<Rightarrow> Inl (Text m)
      | Resolved resp \<Rightarrow>
         (case body resp of
            Unparseable m \<Rightarrow> Inl (Text m)
          | Parsed data \<Rightarrow>
             if \<not> ok resp then
               Inl (if truthy (optProp data ''error'')
                    then error_message (optProp data ''error'')
                    else HttpFailure ''API request failed with status ''
                           (status resp) (statusText resp))
             else
               (case getProp data ''error'' of
                  None \<Rightarrow> Inl NullDeref
                | Some e \<Rightarrow>
                   if truthy e then
                     Inl (if typeof_object e then Stringified e else error_message e)
                   else if \<not> truthy (optProp data ''id'') then
                     Inl (Text ''Invalid response: missing prediction ID'')
                   else Inr (optProp data ''id''))))"

definition startPrediction_modal :: "app \<Rightarrow> fetch_outcome \<Rightarrow> app \<times> request list" where
  "startPrediction_modal s r =
     (case modelPreview s of
        None \<Rightarrow> (showError (Text ''Please upload or take a photo of the model'') Warning s, [])
      | Some photo \<Rightarrow>
         if photo = [] then
           (showError (Text ''Please upload or take a photo of the model'') Warning s, [])
         else if garmentUrl s = [] then
           (showError (Text ''Please provide a garment image URL'') Warning s, [])
         else
           (let s1 = s\<lparr>isLoading := True, error := None\<rparr>
            in ((case submitTry_modal r of
                   Inl m \<Rightarrow> (showError m Error s1)\<lparr>isLoading := False\<rparr>
                 | Inr i \<Rightarrow> s1\<lparr>predictionId := i, predictionStatus := JStr ''starting''\<rparr>),
                [RunRequest photo (garmentUrl s) ''auto''])))"

definition submitTry_inline :: "fetch_outcome \<Rightarrow> message + jsval" where
  "submitTry_inline r =
     (case r of
        Rejected m \<Rightarrow> Inl (Text m)
      | Resolved resp \<Rightarrow>
         if \<not> ok resp then
           (let errorData = (case body resp of Unparseable m \<Rightarrow> JNull | Parsed d \<Rightarrow> d)
            in Inl (if truthy (optProp errorData ''error'')
                    then error_message (optProp errorData ''error'')
                    else HttpFailure ''API request failed with status ''
                           (status resp) (statusText resp)))
         else
           (case body resp of
              Unparseable m \<Rightarrow> Inl (Text m)
            | Parsed data \<Rightarrow>
               (case getProp data ''error'' of
                  None \<Rightarrow> Inl NullDeref
                | Some e \<Rightarrow>
                   if truthy e then Inl (ApiError (error_message e))
                   else if \<not> truthy (optProp data ''id'') then
                     Inl (Text ''Invalid response: missing prediction ID'')
                   else Inr (optProp data ''id''))))"

definition startPrediction_inline :: "app \<Rightarrow> fetch_outcome \<Rightarrow> app \<times> request list" where
  "startPrediction_inline s r =
     (case modelPreview s of
        None \<Rightarrow> (showError (Text ''Please upload or take a photo of the model'') Warning s, [])
      | Some photo \<Rightarrow>
         if photo = [] then
           (showError (Text ''Please upload or take a photo of the model'') Warning s, [])
         else if garmentUrl s = [] then
           (showError (Text ''Please provide a garment image URL'') Warning s, [])
         else
           (let s1 = s\<lparr>isLoading := True, error := None\<rparr>
            in ((case submitTry_inline r of
                   Inl m \<Rightarrow> (showError m Error s1)\<lparr>isLoading := False\<rparr>
                 | Inr i \<Rightarrow> s1\<lparr>predictionId := i, predictionStatus := JStr ''starting''\<rparr>),
                [RunRequest photo (garmentUrl s) ''auto''])))"

text \<open>
  The url variant returns silently when an input is missing, tests neither \<open>response.ok\<close> nor
  \<open>data.id\<close>, and its \<open>catch\<close> block logs and clears the loading flag.
\<close>

definition startPrediction_url :: "app \<Rightarrow> fetch_outcome \<Rightarrow> app \<times> request list" where
  "startPrediction_url s r =
     (case modelPreview s of
        None \<Rightarrow> (s, [])
      | Some photo \<Rightarrow>
         if photo = [] \<or> garmentUrl s = [] then (s, [])
         else
           (let s1 = s\<lparr>isLoading := True\<rparr>
            in ((case r of
                   Rejected m \<Rightarrow> s1\<lparr>isLoading := False\<rparr>
                 | Resolved resp \<Rightarrow>
                    (case body resp of
                       Unparseable m \<Rightarrow> s1\<lparr>isLoading := False\<rparr>
                     | Parsed data \<Rightarrow>
                        (case getProp data ''error'' of
                           None \<Rightarrow> s1\<lparr>isLoading := False\<rparr>
                         | Some e \<Rightarrow>
                            if truthy e then s1\<lparr>isLoading := False\<rparr>
                            else s1\<lparr>predictionId := optProp data ''id'',
                                    predictionStatus := JStr ''starting''\<rparr>))),
                [RunRequest photo (garmentUrl s) ''auto''])))"

subsection \<open>Try Again\<close>

text \<open>
  \<open>handleTryAgain\<close> of the url and inline variants, and the \<open>onClick\<close> of the Try Again button of
  the modal variant, which has the body of the inline variant's handler. Clearing the value of
  the file input touches no state cell.
\<close>

definition handleTryAgain_url :: "app \<Rightarrow> app" where
  "handleTryAgain_url s =
     s\<lparr>modelUrl := [], modelPreview := None, generatedResult := JNull, predictionId := JNull,
       predictionStatus := JNull, isLoading := False\<rparr>"

definition handleTryAgain_inline :: "app \<Rightarrow> app" where
  "handleTryAgain_inline s =
     s\<lparr>modelPreview := None, generatedResult := JNull, predictionId := JNull,
       predictionStatus := JNull, error := None, isLoading := False\<rparr>"

definition handleTryAgain_modal :: "app \<Rightarrow> app" where
  "handleTryAgain_modal s =
     s\<lparr>modelPreview := None, generatedResult := JNull, predictionId := JNull,
       predictionStatus := JNull, error := None, isLoading := False\<rparr>"

subsection \<open>Camera capture in the inline variant\<close>

text \<open>
  What the browser answers during one \<open>handleCameraUpload\<close>: whether \<open>cameraInputRef.current\<close>
  is set, whether \<open>navigator.mediaDevices.getUserMedia\<close> exists, whether \<open>getUserMedia\<close> and
  \<open>video.play()\<close> resolve, whether \<open>getContext('2d')\<close> gives a context, whether \<open>toDataURL\<close>
  returns, and the data URL it returns.
\<close>

record capture_env =
  cameraInput :: bool
  mediaDevices :: bool
  granted :: bool
  playable :: bool
  context2d :: bool
  encodes :: bool
  dataUrl :: string

text \<open>The tracks of the stream: never acquired, running, or stopped.\<close>

datatype tracks = Unacquired | Running | Ended

text \<open>
  The \<open>try\<close> block from \<open>getUserMedia\<close> on: the state of the tracks when the block is left, and
  whether it was left by an exception (\<open>None\<close>) or with the data URL.
\<close>

definition captureTry_inline :: "capture_env \<Rightarrow> tracks \<times> string option" where
  "captureTry_inline e =
     (if \<not> granted e then (Unacquired, None)
      else if \<not> playable e then (Running, None)
      else if \<not> context2d e then (Running, None)
      else if \<not> encodes e then (Ended, None)
      else (Ended, Some (dataUrl e)))"

definition handleCameraUpload_inline :: "app \<Rightarrow> capture_env \<Rightarrow> app \<times> tracks" where
  "handleCameraUpload_inline s e =
     (if \<not> cameraInput e then (s, Unacquired)
      else if \<not> mediaDevices e then
        (showError (Text ''Camera access is not supported in your browser'') Error s, Unacquired)
      else
        (case captureTry_inline e of
           (t, Some url) \<Rightarrow> (s\<lparr>modelPreview := Some url, error := None\<rparr>, t)
         | (t, None) \<Rightarrow>
             (showError (Text ''Failed to access camera. Please check permissions.'') Error s, t)))"

subsection \<open>The camera modal\<close>

datatype facing = User | Environment

text \<open>
  The refs and state of \<open>CameraModal\<close>: \<open>videoRef\<close> tells whether \<open>videoRef.current\<close> is set (the
  video element is mounted), \<open>streamRef\<close> is the stream held in \<open>streamRef.current\<close>. Streams
  are numbered; \<open>running\<close> lists the streams \<open>getUserMedia\<close> has handed out whose tracks have
  not been stopped.
\<close>

record camera =
  facingMode :: facing
  videoRef :: bool
  streamRef :: "nat option"
  running :: "nat list"

definition stopCamera :: "camera \<Rightarrow> camera" where
  "stopCamera c =
     (case streamRef c of
        None \<Rightarrow> c
      | Some st \<Rightarrow> c\<lparr>running := removeAll st (running c)\<rparr>)"

text \<open>
  Closing the modal (\<open>onClose\<close> sets \<open>showCamera\<close> to false): the component unmounts, the
  cleanup of its effect calls \<open>stopCamera\<close>, and the video element is gone.
\<close>

definition onClose :: "camera \<Rightarrow> camera" where
  "onClose c = (stopCamera c)\<lparr>videoRef := False\<rparr>"

text \<open>
  \<open>startCamera\<close> is split at its \<open>await\<close>: the part before it stops the stream held so far,
  the part after it runs when \<open>getUserMedia\<close> has answered (\<open>None\<close>: it rejected).
\<close>

definition startCamera_request :: "camera \<Rightarrow> camera" where
  "startCamera_request c =
     (case streamRef c of
        None \<Rightarrow> c
      | Some st \<Rightarrow> c\<lparr>running := removeAll st (running c)\<rparr>)"

definition startCamera_resume :: "nat option \<Rightarrow> camera \<Rightarrow> camera" where
  "startCamera_resume answer c =
     (case answer of
        None \<Rightarrow> onClose c
      | Some st \<Rightarrow>
         (let c1 = c\<lparr>running := st # running c\<rparr>
          in if videoRef c1 then c1\<lparr>streamRef := Some st\<rparr> else c1))"

text \<open>
  \<open>toggleCamera\<close> flips \<open>facingMode\<close>; the effect of the component then runs \<open>stopCamera\<close> and
  \<open>startCamera\<close> again.
\<close>

definition toggleCamera :: "camera \<Rightarrow> camera" where
  "toggleCamera c = c\<lparr>facingMode := (if facingMode c = User then Environment else User)\<rparr>"

text \<open>The live preview is flipped by CSS for the front camera only.\<close>

definition previewMirrored :: "camera \<Rightarrow> bool" where
  "previewMirrored c = (facingMode c = User)"

text \<open>
  The canvas: the horizontal part of the current transformation, \<open>x \<mapsto> sx * x + dx\<close>, with
  \<open>translate\<close> and \<open>scale\<close> composing on the right as the canvas API does.
\<close>

record transform =
  sx :: int
  dx :: int

definition identity :: transform where
  "identity = \<lparr>sx = 1, dx = 0\<rparr>"

definition translate :: "int \<Rightarrow> transform \<Rightarrow> transform" where
  "translate tx t = t\<lparr>dx := dx t + sx t * tx\<rparr>"

definition scale :: "int \<Rightarrow> transform \<Rightarrow> transform" where
  "scale k t = t\<lparr>sx := sx t * k\<rparr>"

text \<open>
  A video frame of \<open>videoWidth\<close> by \<open>videoHeight\<close> pixels. \<open>drawImage(video, 0, 0)\<close> under a
  transformation of scale 1 or -1 paints the cell of source column \<open>x\<close>, the interval from \<open>x\<close>
  to \<open>x + 1\<close>, onto the cell between \<open>sx * x + dx\<close> and \<open>sx * (x + 1) + dx\<close>; a canvas cell no
  source cell lands on stays empty.
\<close>

record 'p video =
  videoWidth :: nat
  videoHeight :: nat
  pixel :: "nat \<Rightarrow> nat \<Rightarrow> 'p"

definition source_column :: "transform \<Rightarrow> nat \<Rightarrow> int" where
  "source_column t j = (if 0 < sx t then int j - dx t else dx t - 1 - int j)"

definition drawImage :: "transform \<Rightarrow> 'p video \<Rightarrow> nat \<Rightarrow> nat \<Rightarrow> 'p option list list" where
  "drawImage t v w h =
     map (\<lambda>y. map (\<lambda>j. if 0 \<le> source_column t j \<and> source_column t j < int (videoWidth v)
                            \<and> y < videoHeight v
                          then Some (pixel v (nat (source_column t j)) y) else None) [0..<w])
       [0..<h]"

text \<open>
  \<open>takePhoto\<close>: the new state of the modal and the canvas handed to \<open>toDataURL\<close> and
  \<open>onCapture\<close>, or \<open>None\<close> when it returned before drawing.
\<close>

definition takePhoto :: "camera \<Rightarrow> bool \<Rightarrow> 'p video \<Rightarrow> camera \<times> 'p option list list option" where
  "takePhoto c ctx v =
     (if \<not> videoRef c then (c, None)
      else if \<not> ctx then (c, None)
      else
        (let t = scale (- 1) (translate (int (videoWidth v)) identity)
         in (onClose (stopCamera c), Some (drawImage t v (videoWidth v) (videoHeight v)))))"

subsection \<open>Example states and responses\<close>

text \<open>
  A response with a JSON body; the state once a model photo is loaded for the garment of the
  page; and that state with job \<open>job1\<close> submitted and polled.
\<close>

definition reply :: "nat \<Rightarrow> string \<Rightarrow> jsval \<Rightarrow> fetch_outcome" where
  "reply n t d = Resolved \<lparr>status = n, statusText = t, body = Parsed d\<rparr>"

definition ready :: app where
  "ready = (init ''https://shop.example/shirt.png'')\<lparr>modelPreview := Some ''data:image/jpeg;base64,AAAA''\<rparr>"

definition job1 :: app where
  "job1 = ready\<lparr>isLoading := True, predictionId := JStr ''job1'', predictionStatus := JStr ''starting''\<rparr>"

section \<open>The branches of the handlers\<close>

subsection \<open>JavaScript values\<close>

lemma getProp_object: "optProp d k \<noteq> JUndefined \<Longrightarrow> getProp d k' = Some (optProp d k')"
  by (cases d) (simp_all add: optProp_def)

lemma truthy_defined: "truthy v \<Longrightarrow> v \<noteq> JUndefined"
  by (cases v) simp_all

lemma unusable_output:
  "(\<forall>x xs. out \<noteq> JArr (x # xs)) = (\<not> truthy out \<or> \<not> isArray out \<or> array_length out = 0)"
proof (cases out)
  case (JArr ys)
  then show ?thesis by (cases ys) simp_all
qed simp_all

lemma completed_is_object:
  "optProp data ''status'' = JStr ''completed'' \<Longrightarrow>
   getProp data ''error'' = Some (optProp data ''error'')"
  by (rule getProp_object [of data "''status''"]) simp

subsection \<open>The catch block and the normal exit of the status check\<close>

lemma status_catch_modal:
  "truthy (predictionId s) \<Longrightarrow> statusTry_modal s r = (s1, Some m) \<Longrightarrow>
   checkPredictionStatus_modal s r =
     ((showError m Error s1)\<lparr>isLoading := False, predictionId := JNull\<rparr>,
      [StatusRequest (predictionId s)])"
  by (simp add: checkPredictionStatus_modal_def)

lemma status_catch_inline:
  "truthy (predictionId s) \<Longrightarrow> statusTry_inline s r = (s1, Some m) \<Longrightarrow>
   checkPredictionStatus_inline s r =
     ((showError m Error s1)\<lparr>isLoading := False, predictionId := JNull\<rparr>,
      [StatusRequest (predictionId s)])"
  by (simp add: checkPredictionStatus_inline_def)

lemma status_done_modal:
  "truthy (predictionId s) \<Longrightarrow> statusTry_modal s r = (s1, None) \<Longrightarrow>
   checkPredictionStatus_modal s r = (s1, [StatusRequest (predictionId s)])"
  by (simp add: checkPredictionStatus_modal_def)

lemma status_done_inline:
  "truthy (predictionId s) \<Longrightarrow> statusTry_inline s r = (s1, None) \<Longrightarrow>
   checkPredictionStatus_inline s r = (s1, [StatusRequest (predictionId s)])"
  by (simp add: checkPredictionStatus_inline_def)

subsection \<open>The try block of the status check, branch by branch\<close>

lemma modal_rejected: "statusTry_modal s (Rejected m) = (s, Some (Text m))"
  by (simp add: statusTry_modal_def)

lemma inline_rejected: "statusTry_inline s (Rejected m) = (s, Some (Text m))"
  by (simp add: statusTry_inline_def)

lemma modal_unparseable:
  "body resp = Unparseable m \<Longrightarrow> statusTry_modal s (Resolved resp) = (s, Some (Text m))"
  by (simp add: statusTry_modal_def)

lemma inline_unparseable:
  "body resp = Unparseable m \<Longrightarrow>
   statusTry_inline s (Resolved resp) =
     (s, Some (if ok resp then Text m
               else HttpFailure ''Status check failed with status '' (status resp) (statusText resp)))"
  by (simp add: statusTry_inline_def optProp_def)

lemma modal_http_error:
  "body resp = Parsed data \<Longrightarrow> \<not> ok resp \<Longrightarrow>
   statusTry_modal s (Resolved resp) =
     (s, Some (if truthy (optProp data ''error'')
               then error_message (optProp data ''error'')
               else HttpFailure ''Status check failed with status '' (status resp) (statusText resp)))"
  by (simp add: statusTry_modal_def)

lemma inline_http_error:
  "body resp = Parsed data \<Longrightarrow> \<not> ok resp \<Longrightarrow>
   statusTry_inline s (Resolved resp) =
     (s, Some (if truthy (optProp data ''error'')
               then error_message (optProp data ''error'')
               else HttpFailure ''Status check failed with status '' (status resp) (statusText resp)))"
  by (simp add: statusTry_inline_def)

lemma modal_null_body:
  "body resp = Parsed data \<Longrightarrow> ok resp \<Longrightarrow> getProp data ''error'' = None \<Longrightarrow>
   statusTry_modal s (Resolved resp) = (s, Some NullDeref)"
  by (simp add: statusTry_modal_def)

lemma inline_null_body:
  "body resp = Parsed data \<Longrightarrow> ok resp \<Longrightarrow> getProp data ''error'' = None \<Longrightarrow>
   statusTry_inline s (Resolved resp) = (s, Some NullDeref)"
  by (simp add: statusTry_inline_def)

lemma modal_body_error:
  "body resp = Parsed data \<Longrightarrow> ok resp \<Longrightarrow> getProp data ''error'' = Some e \<Longrightarrow> truthy e \<Longrightarrow>
   statusTry_modal s (Resolved resp) =
     (s, Some (if typeof_object e then Stringified e else error_message e))"
  by (simp add: statusTry_modal_def)

lemma inline_body_error:
  "body resp = Parsed data \<Longrightarrow> ok resp \<Longrightarrow> getProp data ''error'' = Some e \<Longrightarrow> truthy e \<Longrightarrow>
   statusTry_inline s (Resolved resp) = (s, Some (ApiError (error_message e)))"
  by (simp add: statusTry_inline_def)

text \<open>On a successful response without an error the two variants run the same code.\<close>

lemma inline_as_modal:
  "body resp = Parsed data \<Longrightarrow> ok resp \<Longrightarrow> getProp data ''error'' = Some e \<Longrightarrow> \<not> truthy e \<Longrightarrow>
   statusTry_inline s (Resolved resp) = statusTry_modal s (Resolved resp)"
  by (simp add: statusTry_inline_def statusTry_modal_def)

lemma modal_missing_status:
  "body resp = Parsed data \<Longrightarrow> ok resp \<Longrightarrow> getProp data ''error'' = Some e \<Longrightarrow> \<not> truthy e \<Longrightarrow>
   \<not> truthy (optProp data ''status'') \<Longrightarrow>
   statusTry_modal s (Resolved resp) = (s, Some (Text ''Invalid response: missing status''))"
  by (simp add: statusTry_modal_def)

lemma modal_bad_output:
  "body resp = Parsed data \<Longrightarrow> ok resp \<Longrightarrow> getProp data ''error'' = Some e \<Longrightarrow> \<not> truthy e \<Longrightarrow>
   optProp data ''status'' = JStr ''completed'' \<Longrightarrow>
   \<forall>x xs. optProp data ''output'' \<noteq> JArr (x # xs) \<Longrightarrow>
   statusTry_modal s (Resolved resp) =
     (s\<lparr>predictionStatus := JStr ''completed''\<rparr>,
      Some (Text ''Invalid response: missing or empty output array''))"
  by (simp add: statusTry_modal_def Let_def unusable_output)

lemma modal_good_output:
  "body resp = Parsed data \<Longrightarrow> ok resp \<Longrightarrow> getProp data ''error'' = Some e \<Longrightarrow> \<not> truthy e \<Longrightarrow>
   optProp data ''status'' = JStr ''completed'' \<Longrightarrow>
   optProp data ''output'' = JArr (x # xs) \<Longrightarrow>
   statusTry_modal s (Resolved resp) =
     (s\<lparr>predictionStatus := JStr ''completed'', generatedResult := x, isLoading := False,
        predictionId := JNull, error := None\<rparr>, None)"
  by (simp add: statusTry_modal_def Let_def)

lemma modal_failed:
  "body resp = Parsed data \<Longrightarrow> ok resp \<Longrightarrow> getProp data ''error'' = Some e \<Longrightarrow> \<not> truthy e \<Longrightarrow>
   optProp data ''status'' = JStr ''failed'' \<Longrightarrow>
   statusTry_modal s (Resolved resp) =
     (s\<lparr>predictionStatus := JStr ''failed''\<rparr>,
      Some (Text ''Prediction failed without specific error message''))"
  by (simp add: statusTry_modal_def Let_def)

lemma modal_other_status:
  "body resp = Parsed data \<Longrightarrow> ok resp \<Longrightarrow> getProp data ''error'' = Some e \<Longrightarrow> \<not> truthy e \<Longrightarrow>
   truthy (optProp data ''status'') \<Longrightarrow> optProp data ''status'' \<noteq> JStr ''completed'' \<Longrightarrow>
   optProp data ''status'' \<noteq> JStr ''failed'' \<Longrightarrow>
   statusTry_modal s (Resolved resp) = (s\<lparr>predictionStatus := optProp data ''status''\<rparr>, None)"
  by (simp add: statusTry_modal_def Let_def)

lemma url_good_output:
  "truthy (predictionId s) \<Longrightarrow> body resp = Parsed data \<Longrightarrow>
   optProp data ''status'' = JStr ''completed'' \<Longrightarrow> optProp data ''output'' = JArr (x # xs) \<Longrightarrow>
   checkPredictionStatus_url s (Resolved resp) =
     (s\<lparr>predictionStatus := JStr ''completed'', generatedResult := x, isLoading := False,
        predictionId := JNull\<rparr>, [StatusRequest (predictionId s)])"
  using getProp_object [of data "''status''" "''status''"]
  by (simp add: checkPredictionStatus_url_def Let_def)

text \<open>A completed status with no usable output throws in both variants.\<close>

lemma modal_completed_bad:
  assumes "body resp = Parsed data" "optProp data ''status'' = JStr ''completed''"
    "\<forall>x xs. optProp data ''output'' \<noteq> JArr (x # xs)"
  obtains s1 m where "statusTry_modal s (Resolved resp) = (s1, Some m)"
    "generatedResult s1 = generatedResult s"
    "ok resp \<and> \<not> truthy (optProp data ''error'') \<longrightarrow>
       m = Text ''Invalid response: missing or empty output array''"
proof -
  note g = completed_is_object [OF assms(2)]
  consider "\<not> ok resp" | "ok resp" "truthy (optProp data ''error'')"
    | "ok resp" "\<not> truthy (optProp data ''error'')" by blast
  then show ?thesis
  proof cases
    case 1
    show ?thesis using that 1 modal_http_error [OF assms(1) 1, of s] by simp
  next
    case 2
    show ?thesis using that 2 modal_body_error [OF assms(1) 2(1) g 2(2), of s] by simp
  next
    case 3
    show ?thesis using that 3 modal_bad_output [OF assms(1) 3(1) g 3(2) assms(2,3), of s] by simp
  qed
qed

lemma inline_completed_bad:
  assumes "body resp = Parsed data" "optProp data ''status'' = JStr ''completed''"
    "\<forall>x xs. optProp data ''output'' \<noteq> JArr (x # xs)"
  obtains s1 m where "statusTry_inline s (Resolved resp) = (s1, Some m)"
    "generatedResult s1 = generatedResult s"
    "ok resp \<and> \<not> truthy (optProp data ''error'') \<longrightarrow>
       m = Text ''Invalid response: missing or empty output array''"
proof -
  note g = completed_is_object [OF assms(2)]
  consider "\<not> ok resp" | "ok resp" "truthy (optProp data ''error'')"
    | "ok resp" "\<not> truthy (optProp data ''error'')" by blast
  then show ?thesis
  proof cases
    case 1
    show ?thesis using that 1 inline_http_error [OF assms(1) 1, of s] by simp
  next
    case 2
    show ?thesis using that 2 inline_body_error [OF assms(1) 2(1) g 2(2), of s] by simp
  next
    case 3
    show ?thesis
      using that 3 modal_bad_output [OF assms(1) 3(1) g 3(2) assms(2,3), of s]
        inline_as_modal [OF assms(1) 3(1) g 3(2), of s] by simp
  qed
qed

text \<open>A response of the wrong shape throws, whatever else it holds.\<close>

lemma modal_shape_error:
  assumes "body resp = Parsed data"
    and "\<not> truthy (optProp data ''status'')
         \<or> optProp data ''status'' = JStr ''completed''
            \<and> (\<forall>x xs. optProp data ''output'' \<noteq> JArr (x # xs))"
  shows "\<exists>s1 m. statusTry_modal s (Resolved resp) = (s1, Some m)"
proof (cases "ok resp")
  case False
  show ?thesis using modal_http_error [OF assms(1) False, of s] by simp
next
  case ok: True
  show ?thesis
  proof (cases "getProp data ''error''")
    case None
    show ?thesis using modal_null_body [OF assms(1) ok None, of s] by simp
  next
    case (Some e)
    show ?thesis
    proof (cases "truthy e")
      case True
      show ?thesis using modal_body_error [OF assms(1) ok Some True, of s] by simp
    next
      case False
      from assms(2) show ?thesis
      proof
        assume "\<not> truthy (optProp data ''status'')"
        then show ?thesis using modal_missing_status [OF assms(1) ok Some False, of s] by simp
      next
        assume "optProp data ''status'' = JStr ''completed''
                  \<and> (\<forall>x xs. optProp data ''output'' \<noteq> JArr (x # xs))"
        then show ?thesis using modal_bad_output [OF assms(1) ok Some False, of s] by simp
      qed
    qed
  qed
qed

lemma inline_shape_error:
  assumes "body resp = Parsed data"
    and "\<not> truthy (optProp data ''status'')
         \<or> optProp data ''status'' = JStr ''completed''
            \<and> (\<forall>x xs. optProp data ''output'' \<noteq> JArr (x # xs))"
  shows "\<exists>s1 m. statusTry_inline s (Resolved resp) = (s1, Some m)"
proof (cases "ok resp")
  case False
  show ?thesis using inline_http_error [OF assms(1) False, of s] by simp
next
  case ok: True
  show ?thesis
  proof (cases "getProp data ''error''")
    case None
    show ?thesis using inline_null_body [OF assms(1) ok None, of s] by simp
  next
    case (Some e)
    show ?thesis
    proof (cases "truthy e")
      case True
      show ?thesis using inline_body_error [OF assms(1) ok Some True, of s] by simp
    next
      case False
      show ?thesis
        using modal_shape_error [OF assms, of s] inline_as_modal [OF assms(1) ok Some False, of s]
        by simp
    qed
  qed
qed

lemma modal_failure:
  assumes "r = Rejected msg
         \<or> (\<exists>resp. r = Resolved resp \<and>
              (\<not> ok resp \<or> (\<exists>m. body resp = Unparseable m)
               \<or> (\<exists>data. body resp = Parsed data \<and>
                    (\<not> truthy (optProp data ''status'')
                     \<or> optProp data ''status'' = JStr ''completed''
                        \<and> (\<forall>x xs. optProp data ''output'' \<noteq> JArr (x # xs))))))"
  shows "\<exists>s1 m. statusTry_modal s r = (s1, Some m)"
  using assms
proof (elim disjE exE conjE)
  assume "r = Rejected msg"
  then show ?thesis by (simp add: modal_rejected)
next
  fix resp assume r: "r = Resolved resp" and "\<not> ok resp"
  then show ?thesis
    by (cases "body resp") (simp_all add: modal_unparseable modal_http_error)
next
  fix resp m assume "r = Resolved resp" "body resp = Unparseable m"
  then show ?thesis by (simp add: modal_unparseable)
next
  fix resp data
  assume "r = Resolved resp" "body resp = Parsed data" "\<not> truthy (optProp data ''status'')"
  then show ?thesis using modal_shape_error [of resp data s] by simp
next
  fix resp data
  assume "r = Resolved resp" "body resp = Parsed data" "optProp data ''status'' = JStr ''completed''"
    "\<forall>x xs. optProp data ''output'' \<noteq> JArr (x # xs)"
  then show ?thesis using modal_shape_error [of resp data s] by simp
qed

lemma inline_failure:
  assumes "r = Rejected msg
         \<or> (\<exists>resp. r = Resolved resp \<and>
              (\<not> ok resp \<or> (\<exists>m. body resp = Unparseable m)
               \<or> (\<exists>data. body resp = Parsed data \<and>
                    (\<not> truthy (optProp data ''status'')
                     \<or> optProp data ''status'' = JStr ''completed''
                        \<and> (\<forall>x xs. optProp data ''output'' \<noteq> JArr (x # xs))))))"
  shows "\<exists>s1 m. statusTry_inline s r = (s1, Some m)"
  using assms
proof (elim disjE exE conjE)
  assume "r = Rejected msg"
  then show ?thesis by (simp add: inline_rejected)
next
  fix resp assume r: "r = Resolved resp" and "\<not> ok resp"
  then show ?thesis
    by (cases "body resp") (simp_all add: inline_unparseable inline_http_error)
next
  fix resp m assume "r = Resolved resp" "body resp = Unparseable m"
  then show ?thesis by (simp add: inline_unparseable)
next
  fix resp data
  assume "r = Resolved resp" "body resp = Parsed data" "\<not> truthy (optProp data ''status'')"
  then show ?thesis using inline_shape_error [of resp data s] by simp
next
  fix resp data
  assume "r = Resolved resp" "body resp = Parsed data" "optProp data ''status'' = JStr ''completed''"
    "\<forall>x xs. optProp data ''output'' \<noteq> JArr (x # xs)"
  then show ?thesis using inline_shape_error [of resp data s] by simp
qed

subsection \<open>The submission, branch by branch\<close>

lemma submit_modal_fails:
  assumes "\<forall>resp data. r = Resolved resp \<and> body resp = Parsed data \<longrightarrow>
             \<not> ok resp \<or> truthy (optProp data ''error'') \<or> \<not> truthy (optProp data ''id'')"
  shows "\<exists>m. submitTry_modal r = Inl m"
proof (cases r)
  case (Rejected m)
  then show ?thesis by (simp add: submitTry_modal_def)
next
  case (Resolved resp)
  show ?thesis
  proof (cases "body resp")
    case (Unparseable m)
    then show ?thesis using Resolved by (simp add: submitTry_modal_def)
  next
    case (Parsed data)
    show ?thesis
    proof (cases "getProp data ''error''")
      case None
      then show ?thesis using Resolved Parsed by (simp add: submitTry_modal_def)
    next
      case (Some e)
      then have e: "optProp data ''error'' = e" by (simp add: optProp_def)
      have "\<not> ok resp \<or> truthy e \<or> \<not> truthy (optProp data ''id'')"
        using assms Resolved Parsed e by blast
      then show ?thesis using Resolved Parsed Some by (auto simp add: submitTry_modal_def)
    qed
  qed
qed

lemma submit_inline_fails:
  assumes "\<forall>resp data. r = Resolved resp \<and> body resp = Parsed data \<longrightarrow>
             \<not> ok resp \<or> truthy (optProp data ''error'') \<or> \<not> truthy (optProp data ''id'')"
  shows "\<exists>m. submitTry_inline r = Inl m"
proof (cases r)
  case (Rejected m)
  then show ?thesis by (simp add: submitTry_inline_def)
next
  case (Resolved resp)
  show ?thesis
  proof (cases "ok resp")
    case False
    then show ?thesis using Resolved by (simp add: submitTry_inline_def Let_def)
  next
    case ok: True
    show ?thesis
    proof (cases "body resp")
      case (Unparseable m)
      then show ?thesis using Resolved ok by (simp add: submitTry_inline_def)
    next
      case (Parsed data)
      show ?thesis
      proof (cases "getProp data ''error''")
        case None
        then show ?thesis using Resolved Parsed ok by (simp add: submitTry_inline_def)
      next
        case (Some e)
        then have e: "optProp data ''error'' = e" by (simp add: optProp_def)
        have "truthy e \<or> \<not> truthy (optProp data ''id'')"
          using assms Resolved Parsed e ok by blast
        then show ?thesis using Resolved Parsed Some ok by (auto simp add: submitTry_inline_def)
      qed
    qed
  qed
qed

lemma submit_succeeds:
  assumes "ok resp" "body resp = Parsed data" "\<not> truthy (optProp data ''error'')"
    "truthy (optProp data ''id'')"
  shows "submitTry_modal (Resolved resp) = Inr (optProp data ''id'')"
    and "submitTry_inline (Resolved resp) = Inr (optProp data ''id'')"
proof -
  have "getProp data ''error'' = Some (optProp data ''error'')"
    using assms(4) truthy_defined getProp_object by blast
  then show "submitTry_modal (Resolved resp) = Inr (optProp data ''id'')"
    and "submitTry_inline (Resolved resp) = Inr (optProp data ''id'')"
    using assms by (simp_all add: submitTry_modal_def submitTry_inline_def)
qed

lemma submit_http_error:
  assumes "\<not> ok resp" "body resp = Parsed data"
  shows "submitTry_modal (Resolved resp) =
           Inl (if truthy (optProp data ''error'') then error_message (optProp data ''error'')
                else HttpFailure ''API request failed with status '' (status resp) (statusText resp))"
    and "submitTry_inline (Resolved resp) =
           Inl (if truthy (optProp data ''error'') then error_message (optProp data ''error'')
                else HttpFailure ''API request failed with status '' (status resp) (statusText resp))"
  using assms by (simp_all add: submitTry_modal_def submitTry_inline_def)

lemma submit_http_error_unparseable:
  assumes "\<not> ok resp" "body resp = Unparseable m"
  shows "submitTry_inline (Resolved resp) =
           Inl (HttpFailure ''API request failed with status '' (status resp) (statusText resp))"
  using assms by (simp add: submitTry_inline_def optProp_def)

lemma submit_body_error:
  assumes "ok resp" "body resp = Parsed data" "truthy (optProp data ''error'')"
  shows "submitTry_modal (Resolved resp) =
           Inl (if typeof_object (optProp data ''error'') then Stringified (optProp data ''error'')
                else error_message (optProp data ''error''))"
    and "submitTry_inline (Resolved resp) = Inl (ApiError (error_message (optProp data ''error'')))"
proof -
  have "getProp data ''error'' = Some (optProp data ''error'')"
    using assms(3) truthy_defined getProp_object by blast
  then show "submitTry_modal (Resolved resp) =
           Inl (if typeof_object (optProp data ''error'') then Stringified (optProp data ''error'')
                else error_message (optProp data ''error''))"
    and "submitTry_inline (Resolved resp) = Inl (ApiError (error_message (optProp data ''error'')))"
    using assms by (simp_all add: submitTry_modal_def submitTry_inline_def)
qed

lemma start_modal:
  assumes "modelPreview s = Some photo" "photo \<noteq> []" "garmentUrl s \<noteq> []"
  shows "startPrediction_modal s r =
     ((case submitTry_modal r of
         Inl m \<Rightarrow> (showError m Error (s\<lparr>isLoading := True, error := None\<rparr>))\<lparr>isLoading := False\<rparr>
       | Inr i \<Rightarrow> s\<lparr>isLoading := True, error := None, predictionId := i,
                   predictionStatus := JStr ''starting''\<rparr>),
      [RunRequest photo (garmentUrl s) ''auto''])"
  using assms by (simp add: startPrediction_modal_def Let_def split: sum.split)

lemma start_inline:
  assumes "modelPreview s = Some photo" "photo \<noteq> []" "garmentUrl s \<noteq> []"
  shows "startPrediction_inline s r =
     ((case submitTry_inline r of
         Inl m \<Rightarrow> (showError m Error (s\<lparr>isLoading := True, error := None\<rparr>))\<lparr>isLoading := False\<rparr>
       | Inr i \<Rightarrow> s\<lparr>isLoading := True, error := None, predictionId := i,
                   predictionStatus := JStr ''starting''\<rparr>),
      [RunRequest photo (garmentUrl s) ''auto''])"
  using assms by (simp add: startPrediction_inline_def Let_def split: sum.split)

subsection \<open>Notifications\<close>

lemma one_notification_at_a_time:
  "error (showError m t s) = Some \<lparr>message = m, type = t\<rparr>"
  by (simp add: showError_def)

lemma lone_notification_expires_after_5s:
  "timeouts s = [] \<Longrightarrow>
   error (advance d (showError m t s)) =
     (if d < 5000 then Some \<lparr>message = m, type = t\<rparr> else None)"
  by (simp add: advance_def showError_def Let_def)

subsection \<open>Camera\<close>

lemma mirrored_column:
  "j < w \<Longrightarrow> source_column (scale (- 1) (translate (int w) identity)) j = int (w - 1 - j)"
  by (simp add: source_column_def scale_def translate_def identity_def)

lemma takePhoto_mirrors:
  assumes "videoRef c"
  shows "snd (takePhoto c True v) =
           Some (map (\<lambda>y. map (\<lambda>j. Some (pixel v (videoWidth v - 1 - j) y)) [0..<videoWidth v])
                   [0..<videoHeight v])"
proof -
  have "drawImage (scale (- 1) (translate (int (videoWidth v)) identity)) v (videoWidth v) (videoHeight v)
      = map (\<lambda>y. map (\<lambda>j. Some (pixel v (videoWidth v - 1 - j) y)) [0..<videoWidth v])
          [0..<videoHeight v]"
    unfolding drawImage_def
  proof (intro map_cong refl)
    fix y j assume "y \<in> set [0..<videoHeight v]" "j \<in> set [0..<videoWidth v]"
    then have j: "j < videoWidth v" and y: "y < videoHeight v" by simp_all
    have "nat (int (videoWidth v - 1 - j)) = videoWidth v - 1 - j" by simp
    then show "(if 0 \<le> source_column (scale (- 1) (translate (int (videoWidth v)) identity)) j
               \<and> source_column (scale (- 1) (translate (int (videoWidth v)) identity)) j
                   < int (videoWidth v)
               \<and> y < videoHeight v
            then Some (pixel v (nat (source_column
                        (scale (- 1) (translate (int (videoWidth v)) identity)) j)) y)
            else None) = Some (pixel v (videoWidth v - 1 - j) y)"
      unfolding mirrored_column [OF j] using j y by simp
  qed
  then show ?thesis using assms by (simp add: takePhoto_def Let_def)
qed

lemma capture_releases_on_success:
  "cameraInput e \<Longrightarrow> mediaDevices e \<Longrightarrow> granted e \<Longrightarrow> playable e \<Longrightarrow> context2d e \<Longrightarrow>
   encodes e \<Longrightarrow>
   handleCameraUpload_inline s e = (s\<lparr>modelPreview := Some (dataUrl e), error := None\<rparr>, Ended)"
  by (simp add: handleCameraUpload_inline_def captureTry_inline_def)

lemma capture_releases_before_encoding:
  "cameraInput e \<Longrightarrow> mediaDevices e \<Longrightarrow> granted e \<Longrightarrow> playable e \<Longrightarrow> context2d e \<Longrightarrow>
   snd (handleCameraUpload_inline s e) = Ended"
  by (simp add: handleCameraUpload_inline_def captureTry_inline_def)

lemma capture_leaks_on_failure:
  "cameraInput e \<Longrightarrow> mediaDevices e \<Longrightarrow> granted e \<Longrightarrow> \<not> playable e \<or> \<not> context2d e \<Longrightarrow>
   snd (handleCameraUpload_inline s e) = Running"
  by (auto simp add: handleCameraUpload_inline_def captureTry_inline_def)

section \<open>Properties\<close>

text \<open>
  Claim C1, as stated, fails in the url variant, which tests \<open>data.output\<close> for truthiness
  only: an empty array is truthy, so \<open>{status: "completed", output: []}\<close> stores
  \<open>undefined\<close> as the result, clears the job id and the loading flag, and reports nothing.
\<close>

theorem url_empty_output_completes_counterexample:
  "checkPredictionStatus_url job1
     (reply 200 ''OK'' (JObj [(''status'', JStr ''completed''), (''output'', JArr [])]))
   = (job1\<lparr>predictionStatus := JStr ''completed'', generatedResult := JUndefined,
           isLoading := False, predictionId := JNull\<rparr>, [StatusRequest (JStr ''job1'')])
   \<and> error job1 = None"
  by (simp add: checkPredictionStatus_url_def reply_def job1_def ready_def init_def optProp_def)

text \<open>
  Claim C1, amended to the variants that can report an error. For a status check of a running
  job whose response body has status \<open>completed\<close>:
  \<^item> if \<open>output\<close> is absent, not an array or an empty array (it is no array with a first
    element), the modal and inline variants end with an error-severity notification, the
    result untouched, the job id cleared and the loading flag off;
  \<^item> if moreover the response is an HTTP success without an \<open>error\<close> field, the notification
    is \<open>Invalid response: missing or empty output array\<close>;
  \<^item> if \<open>output\<close> is an array with a first element and the response an HTTP success without an
    \<open>error\<close> field, the stored result is that first element, in all three variants.
\<close>

theorem completed_output_checked:
  assumes "truthy (predictionId s)"
    and "body resp = Parsed data"
    and "optProp data ''status'' = JStr ''completed''"
  shows
    "(let m = fst (checkPredictionStatus_modal s (Resolved resp));
          i = fst (checkPredictionStatus_inline s (Resolved resp));
          u = fst (checkPredictionStatus_url s (Resolved resp));
          out = optProp data ''output''
      in ((\<forall>x xs. out \<noteq> JArr (x # xs)) \<longrightarrow>
            map_option type (error m) = Some Error \<and> generatedResult m = generatedResult s
              \<and> predictionId m = JNull \<and> \<not> isLoading m
            \<and> map_option type (error i) = Some Error \<and> generatedResult i = generatedResult s
              \<and> predictionId i = JNull \<and> \<not> isLoading i)
        \<and> ((\<forall>x xs. out \<noteq> JArr (x # xs)) \<and> ok resp \<and> \<not> truthy (optProp data ''error'') \<longrightarrow>
            error m = Some \<lparr>message = Text ''Invalid response: missing or empty output array'',
                            type = Error\<rparr>
            \<and> error i = Some \<lparr>message = Text ''Invalid response: missing or empty output array'',
                              type = Error\<rparr>)
        \<and> (\<forall>x xs. out = JArr (x # xs) \<and> ok resp \<and> \<not> truthy (optProp data ''error'') \<longrightarrow>
            generatedResult m = x \<and> predictionId m = JNull \<and> \<not> isLoading m \<and> error m = None
            \<and> generatedResult i = x \<and> predictionId i = JNull \<and> \<not> isLoading i \<and> error i = None
            \<and> generatedResult u = x \<and> predictionId u = JNull \<and> \<not> isLoading u))"
proof -
  let ?m = "fst (checkPredictionStatus_modal s (Resolved resp))"
  let ?i = "fst (checkPredictionStatus_inline s (Resolved resp))"
  let ?u = "fst (checkPredictionStatus_url s (Resolved resp))"
  let ?bad = "\<forall>x xs. optProp data ''output'' \<noteq> JArr (x # xs)"
  let ?plain = "ok resp \<and> \<not> truthy (optProp data ''error'')"
  let ?text = "Text ''Invalid response: missing or empty output array''"
  note g = completed_is_object [OF assms(3)]
  have bad_m: "map_option type (error ?m) = Some Error \<and> generatedResult ?m = generatedResult s
      \<and> predictionId ?m = JNull \<and> \<not> isLoading ?m
      \<and> (?plain \<longrightarrow> error ?m = Some \<lparr>message = ?text, type = Error\<rparr>)" if u: ?bad
  proof -
    obtain s1 m where m: "statusTry_modal s (Resolved resp) = (s1, Some m)"
        "generatedResult s1 = generatedResult s" "?plain \<longrightarrow> m = ?text"
      using modal_completed_bad [OF assms(2,3) u] by blast
    show ?thesis
      using m(2,3) by (simp add: status_catch_modal [OF assms(1) m(1)] showError_def)
  qed
  have bad_i: "map_option type (error ?i) = Some Error \<and> generatedResult ?i = generatedResult s
      \<and> predictionId ?i = JNull \<and> \<not> isLoading ?i
      \<and> (?plain \<longrightarrow> error ?i = Some \<lparr>message = ?text, type = Error\<rparr>)" if u: ?bad
  proof -
    obtain s1 m where m: "statusTry_inline s (Resolved resp) = (s1, Some m)"
        "generatedResult s1 = generatedResult s" "?plain \<longrightarrow> m = ?text"
      using inline_completed_bad [OF assms(2,3) u] by blast
    show ?thesis
      using m(2,3) by (simp add: status_catch_inline [OF assms(1) m(1)] showError_def)
  qed
  have good: "generatedResult ?m = x \<and> predictionId ?m = JNull \<and> \<not> isLoading ?m
      \<and> error ?m = None
      \<and> generatedResult ?i = x \<and> predictionId ?i = JNull \<and> \<not> isLoading ?i \<and> error ?i = None
      \<and> generatedResult ?u = x \<and> predictionId ?u = JNull \<and> \<not> isLoading ?u"
    if out: "optProp data ''output'' = JArr (x # xs)" and p: "ok resp"
      "\<not> truthy (optProp data ''error'')" for x xs
  proof -
    note m = modal_good_output [OF assms(2) p(1) g p(2) assms(3) out, of s]
    have i: "statusTry_inline s (Resolved resp) = statusTry_modal s (Resolved resp)"
      by (rule inline_as_modal [OF assms(2) p(1) g p(2)])
    show ?thesis
      by (simp add: status_done_modal [OF assms(1) m] status_done_inline [OF assms(1) i [unfolded m]]
            url_good_output [OF assms out])
  qed
  show ?thesis
    unfolding Let_def using bad_m bad_i good by blast
qed

theorem completed_output_checked_witness:
  "truthy (predictionId job1)
   \<and> error (fst (checkPredictionStatus_modal job1
        (reply 200 ''OK'' (JObj [(''status'', JStr ''completed''), (''output'', JArr [])]))))
     = Some \<lparr>message = Text ''Invalid response: missing or empty output array'', type = Error\<rparr>
   \<and> generatedResult (fst (checkPredictionStatus_inline job1
        (reply 200 ''OK'' (JObj [(''status'', JStr ''completed''), (''output'', JArr [])]))))
     = JNull
   \<and> generatedResult (fst (checkPredictionStatus_inline job1
        (reply 200 ''OK'' (JObj [(''status'', JStr ''completed''),
                                 (''output'', JArr [JStr ''https://x/result.jpg''])]))))
     = JStr ''https://x/result.jpg''"
proof -
  let ?bad = "JObj [(''status'', JStr ''completed''), (''output'', JArr [])]"
  let ?good = "JObj [(''status'', JStr ''completed''),
                     (''output'', JArr [JStr ''https://x/result.jpg''])]"
  have job: "truthy (predictionId job1)"
    by (simp add: job1_def)
  have bad: "optProp ?bad ''status'' = JStr ''completed''"
    and good: "optProp ?good ''status'' = JStr ''completed''"
    by (simp_all add: optProp_def)
  have body: "body \<lparr>status = 200, statusText = ''OK'', body = Parsed d\<rparr> = Parsed d" for d
    by simp
  show ?thesis
    using job completed_output_checked [OF job body bad] completed_output_checked [OF job body good]
    by (simp add: Let_def reply_def optProp_def ok_def job1_def ready_def init_def)
qed

text \<open>
  Claim C2, as stated, fails in the url variant, whose \<open>catch\<close> block only logs: after a
  rejected fetch the state is what it was, the job id is still set, polling is still live and
  nothing is shown.
\<close>

theorem url_failed_fetch_keeps_polling_counterexample:
  "checkPredictionStatus_url job1 (Rejected ''Failed to fetch'')
     = (job1, [StatusRequest (JStr ''job1'')])
   \<and> pollingActive job1 \<and> error job1 = None"
  by (simp add: checkPredictionStatus_url_def job1_def ready_def init_def pollingActive_def)

text \<open>
  Claim C2, amended to the variants that have a notification. When the status check of a
  running job fails (the fetch is rejected, the HTTP status is not a success, the body does not
  parse, or the body has no status or is \<open>completed\<close> without a usable output), the modal and
  inline variants show an error-severity notification, clear the job id and the loading flag,
  and the polling timer is no longer live.
\<close>

theorem failed_status_check_returns_to_idle:
  assumes "truthy (predictionId s)"
    and "r = Rejected msg
         \<or> (\<exists>resp. r = Resolved resp \<and>
              (\<not> ok resp \<or> (\<exists>m. body resp = Unparseable m)
               \<or> (\<exists>data. body resp = Parsed data \<and>
                    (\<not> truthy (optProp data ''status'')
                     \<or> optProp data ''status'' = JStr ''completed''
                        \<and> (\<forall>x xs. optProp data ''output'' \<noteq> JArr (x # xs))))))"
  shows
    "(let m = fst (checkPredictionStatus_modal s r); i = fst (checkPredictionStatus_inline s r)
      in map_option type (error m) = Some Error \<and> predictionId m = JNull \<and> \<not> isLoading m
           \<and> \<not> pollingActive m
         \<and> map_option type (error i) = Some Error \<and> predictionId i = JNull \<and> \<not> isLoading i
           \<and> \<not> pollingActive i)"
proof -
  obtain s1 m where m: "statusTry_modal s r = (s1, Some m)"
    using modal_failure [OF assms(2)] by blast
  obtain s2 n where n: "statusTry_inline s r = (s2, Some n)"
    using inline_failure [OF assms(2)] by blast
  show ?thesis
    by (simp add: status_catch_modal [OF assms(1) m] status_catch_inline [OF assms(1) n]
          showError_def pollingActive_def)
qed

theorem failed_status_check_returns_to_idle_witness:
  "truthy (predictionId job1)
   \<and> map_option type (error (fst (checkPredictionStatus_modal job1 (Rejected ''Failed to fetch''))))
     = Some Error
   \<and> predictionId (fst (checkPredictionStatus_modal job1 (Rejected ''Failed to fetch''))) = JNull
   \<and> \<not> isLoading (fst (checkPredictionStatus_inline job1 (Rejected ''Failed to fetch'')))
   \<and> \<not> pollingActive (fst (checkPredictionStatus_inline job1 (Rejected ''Failed to fetch'')))"
proof -
  have job: "truthy (predictionId job1)"
    by (simp add: job1_def)
  show ?thesis
    using job failed_status_check_returns_to_idle [OF job disjI1 [OF refl], of "''Failed to fetch''"]
    by (simp add: Let_def)
qed

text \<open>
  Claim C3, as stated, fails in all three variants: no code compares the status with the
  vocabulary. The status \<open>in_queue\<close> is stored like any other, no error is raised and polling
  goes on.
\<close>

theorem unlisted_status_counterexample:
  "checkPredictionStatus_modal job1 (reply 200 ''OK'' (JObj [(''status'', JStr ''in_queue'')]))
     = (job1\<lparr>predictionStatus := JStr ''in_queue''\<rparr>, [StatusRequest (JStr ''job1'')])
   \<and> checkPredictionStatus_inline job1 (reply 200 ''OK'' (JObj [(''status'', JStr ''in_queue'')]))
     = (job1\<lparr>predictionStatus := JStr ''in_queue''\<rparr>, [StatusRequest (JStr ''job1'')])
   \<and> checkPredictionStatus_url job1 (reply 200 ''OK'' (JObj [(''status'', JStr ''in_queue'')]))
     = (job1\<lparr>predictionStatus := JStr ''in_queue''\<rparr>, [StatusRequest (JStr ''job1'')])
   \<and> error (job1\<lparr>predictionStatus := JStr ''in_queue''\<rparr>) = None
   \<and> pollingActive (job1\<lparr>predictionStatus := JStr ''in_queue''\<rparr>)"
  by (simp add: checkPredictionStatus_modal_def statusTry_modal_def
        checkPredictionStatus_inline_def statusTry_inline_def checkPredictionStatus_url_def
        reply_def job1_def ready_def init_def optProp_def ok_def pollingActive_def)

text \<open>
  Claim C3, amended. For the status check of a running job answered by an HTTP success
  without an \<open>error\<close> field: every truthy status other than \<open>completed\<close> and \<open>failed\<close>, inside
  the vocabulary or not, is stored as the current status, with no other change, and polling
  stays live, in all three variants; a falsy status (absent, \<open>null\<close>, empty, \<open>0\<close>, \<open>false\<close>) is
  the error \<open>Invalid response: missing status\<close> in the modal and inline variants.
\<close>

theorem truthy_status_is_passed_through:
  assumes "truthy (predictionId s)" and "ok resp" and "body resp = Parsed data"
    and "getProp data ''error'' = Some e" and "\<not> truthy e"
  shows
    "(truthy (optProp data ''status'') \<and> optProp data ''status'' \<noteq> JStr ''completed''
        \<and> optProp data ''status'' \<noteq> JStr ''failed'' \<longrightarrow>
        checkPredictionStatus_modal s (Resolved resp)
          = (s\<lparr>predictionStatus := optProp data ''status''\<rparr>, [StatusRequest (predictionId s)])
        \<and> checkPredictionStatus_inline s (Resolved resp)
          = (s\<lparr>predictionStatus := optProp data ''status''\<rparr>, [StatusRequest (predictionId s)])
        \<and> checkPredictionStatus_url s (Resolved resp)
          = (s\<lparr>predictionStatus := optProp data ''status''\<rparr>, [StatusRequest (predictionId s)])
        \<and> pollingActive (s\<lparr>predictionStatus := optProp data ''status''\<rparr>))
     \<and> (\<not> truthy (optProp data ''status'') \<longrightarrow>
        checkPredictionStatus_modal s (Resolved resp)
          = ((showError (Text ''Invalid response: missing status'') Error s)
               \<lparr>isLoading := False, predictionId := JNull\<rparr>, [StatusRequest (predictionId s)])
        \<and> checkPredictionStatus_inline s (Resolved resp)
          = ((showError (Text ''Invalid response: missing status'') Error s)
               \<lparr>isLoading := False, predictionId := JNull\<rparr>, [StatusRequest (predictionId s)]))"
proof (intro conjI impI)
  assume st: "truthy (optProp data ''status'') \<and> optProp data ''status'' \<noteq> JStr ''completed''
        \<and> optProp data ''status'' \<noteq> JStr ''failed''"
  then have m: "statusTry_modal s (Resolved resp) = (s\<lparr>predictionStatus := optProp data ''status''\<rparr>, None)"
    using modal_other_status [OF assms(3,2,4,5), of s] by simp
  have i: "statusTry_inline s (Resolved resp) = (s\<lparr>predictionStatus := optProp data ''status''\<rparr>, None)"
    using m inline_as_modal [OF assms(3,2,4,5), of s] by simp
  show "checkPredictionStatus_modal s (Resolved resp)
          = (s\<lparr>predictionStatus := optProp data ''status''\<rparr>, [StatusRequest (predictionId s)])"
    by (rule status_done_modal [OF assms(1) m])
  show "checkPredictionStatus_inline s (Resolved resp)
          = (s\<lparr>predictionStatus := optProp data ''status''\<rparr>, [StatusRequest (predictionId s)])"
    by (rule status_done_inline [OF assms(1) i])
  have "getProp data ''status'' = Some (optProp data ''status'')"
    using st truthy_defined getProp_object by blast
  then show "checkPredictionStatus_url s (Resolved resp)
          = (s\<lparr>predictionStatus := optProp data ''status''\<rparr>, [StatusRequest (predictionId s)])"
    using st assms(1,3) by (simp add: checkPredictionStatus_url_def Let_def)
  show "pollingActive (s\<lparr>predictionStatus := optProp data ''status''\<rparr>)"
    using st assms(1) by (simp add: pollingActive_def)
next
  assume st: "\<not> truthy (optProp data ''status'')"
  note m = modal_missing_status [OF assms(3,2,4,5) st, of s]
  have i: "statusTry_inline s (Resolved resp) = (s, Some (Text ''Invalid response: missing status''))"
    using m inline_as_modal [OF assms(3,2,4,5), of s] by simp
  show "checkPredictionStatus_modal s (Resolved resp)
          = ((showError (Text ''Invalid response: missing status'') Error s)
               \<lparr>isLoading := False, predictionId := JNull\<rparr>, [StatusRequest (predictionId s)])"
    by (rule status_catch_modal [OF assms(1) m])
  show "checkPredictionStatus_inline s (Resolved resp)
          = ((showError (Text ''Invalid response: missing status'') Error s)
               \<lparr>isLoading := False, predictionId := JNull\<rparr>, [StatusRequest (predictionId s)])"
    by (rule status_catch_inline [OF assms(1) i])
qed

theorem truthy_status_is_passed_through_witness:
  "truthy (predictionId job1)
   \<and> checkPredictionStatus_modal job1 (reply 200 ''OK'' (JObj [(''status'', JStr ''in_queue'')]))
     = (job1\<lparr>predictionStatus := JStr ''in_queue''\<rparr>, [StatusRequest (predictionId job1)])
   \<and> pollingActive (job1\<lparr>predictionStatus := JStr ''in_queue''\<rparr>)
   \<and> checkPredictionStatus_inline job1 (reply 200 ''OK'' (JObj [(''state'', JStr ''in_queue'')]))
     = ((showError (Text ''Invalid response: missing status'') Error job1)
          \<lparr>isLoading := False, predictionId := JNull\<rparr>, [StatusRequest (predictionId job1)])"
proof -
  let ?known = "JObj [(''status'', JStr ''in_queue'')]"
  let ?other = "JObj [(''state'', JStr ''in_queue'')]"
  have job: "truthy (predictionId job1)"
    by (simp add: job1_def)
  have ok: "ok \<lparr>status = 200, statusText = ''OK'', body = Parsed d\<rparr>" for d
    by (simp add: ok_def)
  have body: "body \<lparr>status = 200, statusText = ''OK'', body = Parsed d\<rparr> = Parsed d" for d
    by simp
  have e1: "getProp ?known ''error'' = Some JUndefined"
    and e2: "getProp ?other ''error'' = Some JUndefined"
    and f: "\<not> truthy JUndefined"
    by simp_all
  show ?thesis
    using job truthy_status_is_passed_through [OF job ok body e1 f]
      truthy_status_is_passed_through [OF job ok body e2 f]
    by (simp add: reply_def optProp_def)
qed

text \<open>
  Claim C4, as stated, fails in the url variant, which has no notification: a submission
  without inputs returns silently.
\<close>

theorem url_submit_without_inputs_is_silent_counterexample:
  "startPrediction_url (init []) (Rejected ''unused'') = (init [], [])
   \<and> error (init []) = None"
  by (simp add: startPrediction_url_def init_def)

text \<open>
  Claim C4, amended. When the model image or the garment URL is missing, no variant issues a
  request. The modal and inline variants show a warning, about the model photo when it is
  missing and about the garment URL otherwise, and change nothing else: the loading flag, the
  job id, the status and the result stay as they were. The url variant changes nothing at all.
\<close>

theorem submit_without_inputs_is_refused:
  assumes "falsy_string (modelPreview s) \<or> garmentUrl s = []"
  shows
    "startPrediction_modal s r =
       (showError (if falsy_string (modelPreview s)
                   then Text ''Please upload or take a photo of the model''
                   else Text ''Please provide a garment image URL'') Warning s, [])
     \<and> startPrediction_inline s r =
       (showError (if falsy_string (modelPreview s)
                   then Text ''Please upload or take a photo of the model''
                   else Text ''Please provide a garment image URL'') Warning s, [])
     \<and> startPrediction_url s r = (s, [])
     \<and> (\<forall>m. map_option type (error (showError m Warning s)) = Some Warning
            \<and> isLoading (showError m Warning s) = isLoading s
            \<and> predictionId (showError m Warning s) = predictionId s
            \<and> predictionStatus (showError m Warning s) = predictionStatus s
            \<and> generatedResult (showError m Warning s) = generatedResult s)"
proof (cases "modelPreview s")
  case None
  then show ?thesis
    by (simp add: startPrediction_modal_def startPrediction_inline_def startPrediction_url_def
          showError_def)
next
  case (Some photo)
  then show ?thesis
    using assms
    by (cases "photo = []"; cases "garmentUrl s = []")
      (simp_all add: startPrediction_modal_def startPrediction_inline_def
          startPrediction_url_def showError_def)
qed

theorem submit_without_inputs_is_refused_witness:
  "(falsy_string (modelPreview (init [])) \<or> garmentUrl (init []) = [])
   \<and> startPrediction_modal (init []) (Rejected ''unused'')
     = (showError (Text ''Please upload or take a photo of the model'') Warning (init []), [])
   \<and> startPrediction_inline (init []) (Rejected ''unused'')
     = (showError (Text ''Please upload or take a photo of the model'') Warning (init []), [])
   \<and> startPrediction_url (init []) (Rejected ''unused'') = (init [], [])
   \<and> isLoading (showError (Text ''Please upload or take a photo of the model'') Warning (init []))
     = isLoading (init [])"
proof -
  have h: "falsy_string (modelPreview (init [])) \<or> garmentUrl (init []) = []"
    by (simp add: init_def)
  have m: "falsy_string (modelPreview (init []))"
    by (simp add: init_def)
  show ?thesis
    using h m submit_without_inputs_is_refused [OF h, of "Rejected ''unused''"]
    by simp
qed

text \<open>
  Claim C5, as stated, fails in the url variant, which tests neither \<open>response.ok\<close> nor
  \<open>data.id\<close>: a response with status 500 and an \<open>id\<close> in its body starts the job.
\<close>

theorem url_submit_ignores_http_status_counterexample:
  "\<not> ok \<lparr>status = 500, statusText = ''Internal Server Error'',
          body = Parsed (JObj [(''id'', JStr ''job1'')])\<rparr>
   \<and> startPrediction_url ready (reply 500 ''Internal Server Error'' (JObj [(''id'', JStr ''job1'')]))
     = (job1, [RunRequest ''data:image/jpeg;base64,AAAA'' ''https://shop.example/shirt.png'' ''auto''])
   \<and> predictionId job1 = JStr ''job1'' \<and> error job1 = None"
  by (simp add: startPrediction_url_def reply_def job1_def ready_def init_def ok_def optProp_def)

text \<open>
  Claim C5, amended to the modal and inline variants. With both inputs present:
  \<^item> a response that is an HTTP success with a parsed body, no truthy \<open>error\<close> and a truthy
    \<open>id\<close> stores that id, sets the status to \<open>starting\<close> and keeps the loading flag on;
  \<^item> every other outcome shows an error-severity notification, clears the loading flag and
    leaves the job id and the status as they were;
  \<^item> for an HTTP error status with a parsed body the message is the body's \<open>error\<close> if it
    is truthy and the HTTP status line otherwise; in the inline variant an HTTP error status
    with an unparseable body gives the HTTP status line as well;
  \<^item> for an HTTP success whose body has a truthy \<open>error\<close> the message is that error, as JSON
    when it is an object (modal) or behind \<open>API Error: \<close> (inline).
\<close>

theorem submit_stores_job_only_on_success:
  assumes "modelPreview s = Some photo" and "photo \<noteq> []" and "garmentUrl s \<noteq> []"
  shows
    "(\<forall>resp data. r = Resolved resp \<and> ok resp \<and> body resp = Parsed data
         \<and> \<not> truthy (optProp data ''error'') \<and> truthy (optProp data ''id'') \<longrightarrow>
        startPrediction_modal s r =
          (s\<lparr>isLoading := True, error := None, predictionId := optProp data ''id'',
             predictionStatus := JStr ''starting''\<rparr>, [RunRequest photo (garmentUrl s) ''auto''])
        \<and> startPrediction_inline s r =
          (s\<lparr>isLoading := True, error := None, predictionId := optProp data ''id'',
             predictionStatus := JStr ''starting''\<rparr>, [RunRequest photo (garmentUrl s) ''auto'']))
     \<and> ((\<forall>resp data. r = Resolved resp \<and> body resp = Parsed data \<longrightarrow>
            \<not> ok resp \<or> truthy (optProp data ''error'') \<or> \<not> truthy (optProp data ''id'')) \<longrightarrow>
         (let m = fst (startPrediction_modal s r); i = fst (startPrediction_inline s r)
          in map_option type (error m) = Some Error \<and> predictionId m = predictionId s
               \<and> predictionStatus m = predictionStatus s \<and> \<not> isLoading m
             \<and> map_option type (error i) = Some Error \<and> predictionId i = predictionId s
               \<and> predictionStatus i = predictionStatus s \<and> \<not> isLoading i))
     \<and> (\<forall>resp data. r = Resolved resp \<and> \<not> ok resp \<and> body resp = Parsed data \<longrightarrow>
          map_option message (error (fst (startPrediction_modal s r)))
            = Some (if truthy (optProp data ''error'') then error_message (optProp data ''error'')
                    else HttpFailure ''API request failed with status ''
                           (status resp) (statusText resp))
          \<and> map_option message (error (fst (startPrediction_inline s r)))
            = Some (if truthy (optProp data ''error'') then error_message (optProp data ''error'')
                    else HttpFailure ''API request failed with status ''
                           (status resp) (statusText resp)))
     \<and> (\<forall>resp m. r = Resolved resp \<and> \<not> ok resp \<and> body resp = Unparseable m \<longrightarrow>
          map_option message (error (fst (startPrediction_inline s r)))
            = Some (HttpFailure ''API request failed with status ''
                      (status resp) (statusText resp)))
     \<and> (\<forall>resp data. r = Resolved resp \<and> ok resp \<and> body resp = Parsed data
            \<and> truthy (optProp data ''error'') \<longrightarrow>
          map_option message (error (fst (startPrediction_modal s r)))
            = Some (if typeof_object (optProp data ''error'')
                    then Stringified (optProp data ''error'')
                    else error_message (optProp data ''error''))
          \<and> map_option message (error (fst (startPrediction_inline s r)))
            = Some (ApiError (error_message (optProp data ''error''))))"
proof (intro conjI allI impI)
  fix resp data
  assume a: "r = Resolved resp \<and> ok resp \<and> body resp = Parsed data
         \<and> \<not> truthy (optProp data ''error'') \<and> truthy (optProp data ''id'')"
  then have ok: "ok resp" "body resp = Parsed data" "\<not> truthy (optProp data ''error'')"
      "truthy (optProp data ''id'')" and r: "r = Resolved resp" by simp_all
  show "startPrediction_modal s r =
          (s\<lparr>isLoading := True, error := None, predictionId := optProp data ''id'',
             predictionStatus := JStr ''starting''\<rparr>, [RunRequest photo (garmentUrl s) ''auto''])"
    by (simp add: start_modal [OF assms] r submit_succeeds(1) [OF ok])
  show "startPrediction_inline s r =
          (s\<lparr>isLoading := True, error := None, predictionId := optProp data ''id'',
             predictionStatus := JStr ''starting''\<rparr>, [RunRequest photo (garmentUrl s) ''auto''])"
    by (simp add: start_inline [OF assms] r submit_succeeds(2) [OF ok])
next
  assume a: "\<forall>resp data. r = Resolved resp \<and> body resp = Parsed data \<longrightarrow>
            \<not> ok resp \<or> truthy (optProp data ''error'') \<or> \<not> truthy (optProp data ''id'')"
  obtain m where m: "submitTry_modal r = Inl m" using submit_modal_fails [OF a] by blast
  obtain n where n: "submitTry_inline r = Inl n" using submit_inline_fails [OF a] by blast
  show "let m = fst (startPrediction_modal s r); i = fst (startPrediction_inline s r)
          in map_option type (error m) = Some Error \<and> predictionId m = predictionId s
               \<and> predictionStatus m = predictionStatus s \<and> \<not> isLoading m
             \<and> map_option type (error i) = Some Error \<and> predictionId i = predictionId s
               \<and> predictionStatus i = predictionStatus s \<and> \<not> isLoading i"
    by (simp add: start_modal [OF assms] start_inline [OF assms] m n showError_def)
next
  fix resp data
  assume a: "r = Resolved resp \<and> \<not> ok resp \<and> body resp = Parsed data"
  then have h: "\<not> ok resp" "body resp = Parsed data" and r: "r = Resolved resp" by simp_all
  show "map_option message (error (fst (startPrediction_modal s r)))
            = Some (if truthy (optProp data ''error'') then error_message (optProp data ''error'')
                    else HttpFailure ''API request failed with status ''
                           (status resp) (statusText resp))"
    by (simp add: start_modal [OF assms] r submit_http_error(1) [OF h] showError_def)
  show "map_option message (error (fst (startPrediction_inline s r)))
            = Some (if truthy (optProp data ''error'') then error_message (optProp data ''error'')
                    else HttpFailure ''API request failed with status ''
                           (status resp) (statusText resp))"
    by (simp add: start_inline [OF assms] r submit_http_error(2) [OF h] showError_def)
next
  fix resp m
  assume a: "r = Resolved resp \<and> \<not> ok resp \<and> body resp = Unparseable m"
  then have h: "\<not> ok resp" "body resp = Unparseable m" and r: "r = Resolved resp" by simp_all
  show "map_option message (error (fst (startPrediction_inline s r)))
            = Some (HttpFailure ''API request failed with status ''
                      (status resp) (statusText resp))"
    by (simp add: start_inline [OF assms] r submit_http_error_unparseable [OF h] showError_def)
next
  fix resp data
  assume a: "r = Resolved resp \<and> ok resp \<and> body resp = Parsed data
            \<and> truthy (optProp data ''error'')"
  then have h: "ok resp" "body resp = Parsed data" "truthy (optProp data ''error'')"
    and r: "r = Resolved resp" by simp_all
  show "map_option message (error (fst (startPrediction_modal s r)))
            = Some (if typeof_object (optProp data ''error'')
                    then Stringified (optProp data ''error'')
                    else error_message (optProp data ''error''))"
    by (simp add: start_modal [OF assms] r submit_body_error(1) [OF h] showError_def)
  show "map_option message (error (fst (startPrediction_inline s r)))
            = Some (ApiError (error_message (optProp data ''error'')))"
    by (simp add: start_inline [OF assms] r submit_body_error(2) [OF h] showError_def)
qed

theorem submit_stores_job_only_on_success_witness:
  "modelPreview ready = Some ''data:image/jpeg;base64,AAAA''
   \<and> ''data:image/jpeg;base64,AAAA'' \<noteq> [] \<and> garmentUrl ready \<noteq> []
   \<and> startPrediction_modal ready (reply 200 ''OK'' (JObj [(''id'', JStr ''job1'')]))
     = (job1, [RunRequest ''data:image/jpeg;base64,AAAA'' (garmentUrl ready) ''auto''])
   \<and> predictionId (fst (startPrediction_inline ready (Rejected ''Failed to fetch''))) = JNull
   \<and> map_option message (error (fst (startPrediction_modal ready
        (reply 500 ''Internal Server Error'' (JObj [(''id'', JStr ''job1'')])))))
     = Some (HttpFailure ''API request failed with status '' 500 ''Internal Server Error'')
   \<and> map_option message (error (fst (startPrediction_inline ready
        (Resolved \<lparr>status = 502, statusText = ''Bad Gateway'',
                   body = Unparseable ''Unexpected token <''\<rparr>))))
     = Some (HttpFailure ''API request failed with status '' 502 ''Bad Gateway'')"
proof -
  have h: "modelPreview ready = Some ''data:image/jpeg;base64,AAAA''"
      "''data:image/jpeg;base64,AAAA'' \<noteq> []" "garmentUrl ready \<noteq> []"
    by (simp_all add: ready_def init_def)
  have idle: "predictionId ready = JNull"
    by (simp add: ready_def init_def)
  have job: "ready\<lparr>isLoading := True, error := None, predictionId := JStr ''job1'',
                  predictionStatus := JStr ''starting''\<rparr> = job1"
    by (simp add: job1_def ready_def init_def)
  show ?thesis
    using h idle job
      submit_stores_job_only_on_success [OF h, of "reply 200 ''OK'' (JObj [(''id'', JStr ''job1'')])"]
      submit_stores_job_only_on_success [OF h, of "Rejected ''Failed to fetch''"]
      submit_stores_job_only_on_success [OF h,
        of "reply 500 ''Internal Server Error'' (JObj [(''id'', JStr ''job1'')])"]
      submit_stores_job_only_on_success [OF h,
        of "Resolved \<lparr>status = 502, statusText = ''Bad Gateway'',
                      body = Unparseable ''Unexpected token <''\<rparr>"]
    by (simp add: Let_def reply_def optProp_def ok_def)
qed

text \<open>
  Claim C6: a notification shown while an older one is live stays for a full 5 seconds. The
  code does not do this: \<open>showError\<close> never cancels the timeout of the notification it
  overwrites. With \<open>first\<close> shown at 0 ms and \<open>second\<close> at 3000 ms, the timeout of \<open>first\<close> fires
  at 5000 ms and clears \<open>second\<close>, 2 seconds after it was shown, while its own timeout is
  pending until 8000 ms.
\<close>

theorem stale_timeout_clears_newer_notification:
  "(let s1 = showError (Text ''first'') Error (init ''https://shop.example/shirt.png'');
        s2 = showError (Text ''second'') Warning (advance 3000 s1);
        s3 = advance 2000 s2
    in error s2 = Some \<lparr>message = Text ''second'', type = Warning\<rparr>
       \<and> clock s2 = 3000 \<and> timeouts s2 = [5000, 8000]
       \<and> clock s3 = 5000 \<and> error s3 = None)"
  by (simp add: showError_def advance_def init_def Let_def)

text \<open>
  Claim C7, as stated, fails on its last clause in every variant: Try Again never touches
  \<open>garmentUrl\<close>, which is set once from the query string of the page.
\<close>

theorem reset_keeps_garment_counterexample:
  "garmentUrl (handleTryAgain_modal job1) = ''https://shop.example/shirt.png''
   \<and> garmentUrl (handleTryAgain_inline job1) = ''https://shop.example/shirt.png''
   \<and> garmentUrl (handleTryAgain_url job1) = ''https://shop.example/shirt.png''
   \<and> garmentUrl (init []) = []"
  by (simp add: handleTryAgain_modal_def handleTryAgain_inline_def handleTryAgain_url_def
        job1_def ready_def init_def)

text \<open>
  Claim C7, amended. From every state, Try Again gives the initial state of the page for the
  same garment: no model preview, no result, no job id, no status, loading flag off, no
  notification (modal and inline; the url variant has none), empty URL field (url variant),
  polling timer not live. The garment reference is kept.
\<close>

theorem reset_restores_initial_state_but_garment:
  "handleTryAgain_modal s
     = (init (garmentUrl s))\<lparr>modelUrl := modelUrl s, clock := clock s, timeouts := timeouts s\<rparr>
   \<and> handleTryAgain_inline s
     = (init (garmentUrl s))\<lparr>modelUrl := modelUrl s, clock := clock s, timeouts := timeouts s\<rparr>
   \<and> handleTryAgain_url s
     = (init (garmentUrl s))\<lparr>error := error s, clock := clock s, timeouts := timeouts s\<rparr>
   \<and> \<not> pollingActive (handleTryAgain_modal s)
   \<and> \<not> pollingActive (handleTryAgain_inline s)
   \<and> \<not> pollingActive (handleTryAgain_url s)
   \<and> garmentUrl (handleTryAgain_modal s) = garmentUrl s
   \<and> garmentUrl (handleTryAgain_inline s) = garmentUrl s
   \<and> garmentUrl (handleTryAgain_url s) = garmentUrl s"
  by (simp add: handleTryAgain_modal_def handleTryAgain_inline_def handleTryAgain_url_def
        init_def pollingActive_def)

text \<open>
  Claim C8: a frame is mirrored if and only if it comes from the front camera. \<open>takePhoto\<close>
  applies \<open>translate(width, 0)\<close> and \<open>scale(-1, 1)\<close> whatever \<open>facingMode\<close> is, although its
  comment speaks of the front camera and the live preview is flipped for \<open>user\<close> only. With
  the back camera, a frame whose columns are 0, 1, 2 is captured as 2, 1, 0, while the preview
  is not mirrored.
\<close>

theorem back_camera_photo_is_mirrored:
  "snd (takePhoto \<lparr>facingMode = Environment, videoRef = True, streamRef = Some 1, running = [1]\<rparr>
          True \<lparr>videoWidth = 3, videoHeight = 1, pixel = (\<lambda>x y. x)\<rparr>)
     = Some [[Some 2, Some 1, Some 0]]
   \<and> \<not> previewMirrored \<lparr>facingMode = Environment, videoRef = True, streamRef = Some 1,
                          running = [1]\<rparr>"
  by code_simp

text \<open>
  Claim C9: the camera is released on every exit path. In the inline variant the tracks are
  stopped on the success path only: when \<open>getContext('2d')\<close> gives no context after the stream
  was acquired, the handler reports an error and the tracks keep running. In the modal
  variant, when the modal is closed while \<open>getUserMedia\<close> is pending, the stream it later
  hands out is stored nowhere, and \<open>stopCamera\<close> cannot stop it.
\<close>

theorem camera_left_running_after_failure:
  "handleCameraUpload_inline (init ''https://shop.example/shirt.png'')
      \<lparr>cameraInput = True, mediaDevices = True, granted = True, playable = True,
       context2d = False, encodes = True, dataUrl = ''data:image/jpeg;base64,AAAA''\<rparr>
     = (showError (Text ''Failed to access camera. Please check permissions.'') Error
          (init ''https://shop.example/shirt.png''), Running)
   \<and> startCamera_resume (Some 1)
        (onClose (startCamera_request
           \<lparr>facingMode = User, videoRef = True, streamRef = None, running = []\<rparr>))
     = \<lparr>facingMode = User, videoRef = False, streamRef = None, running = [1]\<rparr>
   \<and> stopCamera \<lparr>facingMode = User, videoRef = False, streamRef = None, running = [1]\<rparr>
     = \<lparr>facingMode = User, videoRef = False, streamRef = None, running = [1]\<rparr>"
  by (simp add: handleCameraUpload_inline_def captureTry_inline_def startCamera_resume_def
        onClose_def stopCamera_def startCamera_request_def Let_def)

text \<open>
  Claim C10. A status check invoked while no job id is set (\<open>predictionId\<close> is \<open>null\<close>, or any
  other falsy value) is a no-op in all three variants: it issues no request and returns the
  state unchanged, whatever the network would have answered.
\<close>

theorem status_check_without_job_is_noop:
  assumes "\<not> truthy (predictionId s)"
  shows "checkPredictionStatus_url s r = (s, [])
       \<and> checkPredictionStatus_modal s r = (s, [])
       \<and> checkPredictionStatus_inline s r = (s, [])"
  using assms
  by (simp add: checkPredictionStatus_url_def checkPredictionStatus_modal_def
        checkPredictionStatus_inline_def)

theorem status_check_without_job_is_noop_witness:
  "\<not> truthy (predictionId (init ''https://shop.example/shirt.png''))
   \<and> checkPredictionStatus_url (init ''https://shop.example/shirt.png'') (Rejected ''Failed to fetch'')
       = (init ''https://shop.example/shirt.png'', [])
   \<and> checkPredictionStatus_modal (init ''https://shop.example/shirt.png'') (Rejected ''Failed to fetch'')
       = (init ''https://shop.example/shirt.png'', [])
   \<and> checkPredictionStatus_inline (init ''https://shop.example/shirt.png'') (Rejected ''Failed to fetch'')
       = (init ''https://shop.example/shirt.png'', [])"
proof -
  have h: "\<not> truthy (predictionId (init ''https://shop.example/shirt.png''))"
    by (simp add: init_def)
  show ?thesis
    using h status_check_without_job_is_noop [OF h, of "Rejected ''Failed to fetch''"]
    by simp
qed

end
